theory Spec2Isabelle
  imports Complex_Main "HOL-Library.Word" "HOL-Library.Multiset"
begin

section \<open>cob: comparing the benchmarks of HEAD and HEAD~1\<close>

text \<open>
  A shallow embedding of \<^verbatim>\<open>main.go\<close>. A value of Go's \<^verbatim>\<open>float64\<close> is modelled by a
  \<^typ>\<open>real\<close>: finite values only, so NaN and infinite inputs are outside the model.
  Comparisons are exact, and so are the ratios of lines 125 and 130. The one product
  whose rounding reaches the output, \<^verbatim>\<open>100*ratio\<close> in \<^verbatim>\<open>generateRatioItem\<close>, is rounded
  as binary64 arithmetic rounds it: to the nearest value, a tie to the even one, and to
  an infinity on overflow. Go's \<^verbatim>\<open>uint64\<close> is \<^typ>\<open>64 word\<close>, whose subtraction wraps
  around as the machine's does. Writes to standard output are returned as values.
\<close>

subsection \<open>Data\<close>

text \<open>
  \<^verbatim>\<open>parse.Benchmark\<close> of \<^verbatim>\<open>golang.org/x/tools/benchmark/parse\<close> (imported at line 15),
  with the fields that \<^verbatim>\<open>main.go\<close> reads. The library declares
  \<^verbatim>\<open>NsPerOp float64\<close> and \<^verbatim>\<open>AllocedBytesPerOp uint64\<close>.
\<close>

record Benchmark =
  Name :: string
  NsPerOp :: real
  AllocedBytesPerOp :: "64 word"

text \<open>\<^verbatim>\<open>parse.Set\<close> is \<^verbatim>\<open>map[string][]*Benchmark\<close>.\<close>

type_synonym benchset = "string \<rightharpoonup> Benchmark list"

text \<open>\<^verbatim>\<open>type result struct\<close>, lines 19 to 23.\<close>

record result =
  Name :: string
  RatioNsPerOp :: real
  RatioAllocedBytesPerOp :: real

text \<open>
  Modelled from the spec: the declaration of \<^verbatim>\<open>config\<close> is not in \<^verbatim>\<open>main.go\<close>; these are
  the fields that \<^verbatim>\<open>run\<close> and \<^verbatim>\<open>prepareBenchArgs\<close> read (the spec's RunConfiguration).
\<close>

record config =
  onlyDegression :: bool
  threshold :: real
  bench :: string
  benchmem :: bool
  benchtime :: string
  args :: "string list"

text \<open>The attributes of \<^verbatim>\<open>tablewriter.Colors\<close> that \<^verbatim>\<open>generateColor\<close> uses.\<close>

datatype color_attr = Bold | FgHiRedColor | FgBlueColor

type_synonym Colors = "color_attr list"

subsection \<open>Binary64 results\<close>

text \<open>
  The result of a \<^verbatim>\<open>float64\<close> operation on finite operands: the exact result rounded
  to the nearest binary64 value, a tie going to the value with the even significand,
  and an infinity from \<open>2^1024 - 2^970\<close> on. \<open>binade n a\<close> is the exponent \<open>e\<close> with
  \<open>2^e \<le> a < 2^(e+1)\<close>, found in at most \<open>n\<close> steps; the spacing of the binary64 values
  around \<open>a\<close> is \<open>2^(e-52)\<close>, and \<open>2^(-1074)\<close> below \<open>2^(-1022)\<close>.
\<close>

datatype float64 = Finite real | PosInf | NegInf | NaN

definition round_half_even :: "real \<Rightarrow> int" where
  "round_half_even x =
     (let f = \<lfloor>x\<rfloor>; d = x - of_int f
      in if d < 1 / 2 then f
         else if 1 / 2 < d then f + 1
         else if even f then f else f + 1)"

fun binade :: "nat \<Rightarrow> real \<Rightarrow> int" where
  "binade n a =
     (if n = 0 then 0
      else if 2 \<le> a then binade (n - 1) (a / 2) + 1
      else if a < 1 then binade (n - 1) (2 * a) - 1
      else 0)"

declare binade.simps [simp del]

definition round64 :: "real \<Rightarrow> float64" where
  "round64 x =
     (let a = \<bar>x\<bar> in
      if 2 ^ 1024 - 2 ^ 970 \<le> a then (if x < 0 then NegInf else PosInf)
      else
        let e = max (binade 1100 a) (- 1022);
            q = 2 powi (e - 52);
            y = of_int (round_half_even (a / q)) * q
        in Finite (if x < 0 then - y else y))"

subsection \<open>Formatting\<close>

text \<open>
  \<^verbatim>\<open>fmt.Sprintf\<close> with the verbs \<^verbatim>\<open>%d\<close> and \<^verbatim>\<open>%.2f\<close>. The verb \<^verbatim>\<open>%.2f\<close> prints the
  decimal expansion of the value rounded to two places, a tie going to the even
  neighbour, with a minus sign for a negative value; an infinity is printed with its
  sign.
\<close>

definition digit_char :: "nat \<Rightarrow> char" where
  "digit_char d = ''0123456789'' ! d"

fun string_of_nat :: "nat \<Rightarrow> string" where
  "string_of_nat n =
     (if n < 10 then [digit_char n]
      else string_of_nat (n div 10) @ [digit_char (n mod 10)])"

declare string_of_nat.simps [simp del]

fun format_2f :: "float64 \<Rightarrow> string" where
  "format_2f (Finite x) =
     (let n = nat (round_half_even (\<bar>x\<bar> * 100))
      in (if x < 0 then ''-'' else []) @ string_of_nat (n div 100) @ ''.'' @
         [digit_char (n div 10 mod 10), digit_char (n mod 10)])"
| "format_2f PosInf = ''+Inf''"
| "format_2f NegInf = ''-Inf''"
| "format_2f NaN = ''NaN''"

declare format_2f.simps [simp del]

definition format_d :: "64 word \<Rightarrow> string" where
  "format_d w = string_of_nat (unat w)"

subsection \<open>The ratio table: lines 201 to 252\<close>

definition generateRatioItem :: "real \<Rightarrow> string" where
  "generateRatioItem ratio0 =
     (let ratio = (if - 0.0001 < ratio0 \<and> ratio0 < 0.0001 then 0 else ratio0)
      in if 0 \<le> ratio then format_2f (round64 (100 * ratio)) @ ''%''
         else format_2f (round64 (- 100 * ratio)) @ ''%'')"

definition generateColor :: "real \<Rightarrow> Colors" where
  "generateColor ratio = (if ratio > 0 then [Bold, FgHiRedColor] else [Bold, FgBlueColor])"

text \<open>
  One pass of the loop of \<^verbatim>\<open>showRatio\<close> (lines 216 to 231). The state is the flag
  \<^verbatim>\<open>degression\<close> and the rows handed to \<^verbatim>\<open>table.Rich\<close>, each with its colours.
\<close>

type_synonym rich_row = "string list \<times> Colors list"

definition showRatio_step ::
  "bool \<Rightarrow> real \<Rightarrow> bool \<Rightarrow> bool \<times> rich_row list \<Rightarrow> result \<Rightarrow> bool \<times> rich_row list" where
  "showRatio_step bmem thr onlyDeg st r =
     (if onlyDeg \<and> (RatioNsPerOp r \<le> thr \<and> RatioAllocedBytesPerOp r \<le> thr) then st
      else
        let row = [result.Name r, generateRatioItem (RatioNsPerOp r)];
            row = (if bmem then row @ [generateRatioItem (RatioAllocedBytesPerOp r)] else row);
            colors = [Nil];
            colors = colors @ [generateColor (RatioNsPerOp r)];
            colors = colors @ [generateColor (RatioAllocedBytesPerOp r)]
        in (True, snd st @ [(row, colors)]))"

fun showRatio_loop ::
  "bool \<Rightarrow> real \<Rightarrow> bool \<Rightarrow> bool \<times> rich_row list \<Rightarrow> result list \<Rightarrow> bool \<times> rich_row list" where
  "showRatio_loop bmem thr onlyDeg st [] = st"
| "showRatio_loop bmem thr onlyDeg st (r # rs) =
     showRatio_loop bmem thr onlyDeg (showRatio_step bmem thr onlyDeg st r) rs"

text \<open>
  \<^verbatim>\<open>showRatio\<close> returns \<^verbatim>\<open>degression\<close>; the model returns the rendered table as well:
  the header and the rows.
\<close>

record ratio_table =
  headers :: "string list"
  rich_rows :: "rich_row list"

definition showRatio :: "result list \<Rightarrow> bool \<Rightarrow> real \<Rightarrow> bool \<Rightarrow> bool \<times> ratio_table" where
  "showRatio results bmem thr onlyDeg =
     (let hs = [''Name'', ''NsPerOp''];
          hs = (if bmem then hs @ [''AllocedBytesPerOp''] else hs);
          st = showRatio_loop bmem thr onlyDeg (False, []) results
      in (fst st, \<lparr>headers = hs, rich_rows = snd st\<rparr>))"

subsection \<open>The raw table: lines 175 to 199\<close>

definition generateRow :: "string \<Rightarrow> Benchmark \<Rightarrow> bool \<Rightarrow> string list" where
  "generateRow ref b bmem =
     (let row = [Benchmark.Name b, ref, '' '' @ format_2f (Finite (NsPerOp b)) @ '' ns/op'']
      in if bmem then row @ ['' '' @ format_d (AllocedBytesPerOp b) @ '' B/op''] else row)"

record result_table =
  result_headers :: "string list"
  result_rows :: "string list list"

definition showResult :: "string list list \<Rightarrow> bool \<Rightarrow> result_table" where
  "showResult rows bmem =
     (let hs = [''Name'', ''Commit'', ''NsPerOp''];
          hs = (if bmem then hs @ [''AllocedBytesPerOp''] else hs)
      in \<lparr>result_headers = hs, result_rows = rows\<rparr>)"

subsection \<open>The comparison: lines 110 to 141\<close>

text \<open>
  The body of the loop over \<^verbatim>\<open>headSet\<close>, for the key \<^verbatim>\<open>benchName\<close>. The state is the
  pair of \<^verbatim>\<open>ratios\<close> and \<^verbatim>\<open>rows\<close>. The subtraction of the two \<^verbatim>\<open>AllocedBytesPerOp\<close> is
  done in \<^verbatim>\<open>uint64\<close>, before the conversion to \<^verbatim>\<open>float64\<close>.
\<close>

definition ratioNsPerOp :: "Benchmark \<Rightarrow> Benchmark \<Rightarrow> real" where
  "ratioNsPerOp prevBench headBench =
     (if NsPerOp prevBench \<noteq> 0
      then (NsPerOp headBench - NsPerOp prevBench) / NsPerOp prevBench else 0)"

definition ratioAllocedBytesPerOp :: "Benchmark \<Rightarrow> Benchmark \<Rightarrow> real" where
  "ratioAllocedBytesPerOp prevBench headBench =
     (if AllocedBytesPerOp prevBench \<noteq> 0
      then real (unat (AllocedBytesPerOp headBench - AllocedBytesPerOp prevBench))
           / real (unat (AllocedBytesPerOp prevBench))
      else 0)"

definition compare_step ::
  "bool \<Rightarrow> benchset \<Rightarrow> benchset \<Rightarrow> result list \<times> string list list \<Rightarrow> string
   \<Rightarrow> result list \<times> string list list" where
  "compare_step bmem prevSet headSet st benchName =
     (case headSet benchName of
        None \<Rightarrow> st
      | Some headBenchmarks \<Rightarrow>
          (case prevSet benchName of
             None \<Rightarrow> st
           | Some prevBenchmarks \<Rightarrow>
               if length headBenchmarks = 0 \<or> length prevBenchmarks = 0 then st
               else
                 let prevBench = prevBenchmarks ! 0;
                     headBench = headBenchmarks ! 0;
                     rows = snd st @ [generateRow ''HEAD'' headBench bmem];
                     rows = rows @ [generateRow (''HEAD@'' @ ''{1}'') prevBench bmem]
                 in (fst st @ [\<lparr>result.Name = benchName,
                                RatioNsPerOp = ratioNsPerOp prevBench headBench,
                                RatioAllocedBytesPerOp =
                                  ratioAllocedBytesPerOp prevBench headBench\<rparr>],
                     rows)))"

text \<open>
  Go does not fix the order in which \<^verbatim>\<open>range\<close> visits the keys of a map, so the order
  is an argument: \<open>ks\<close> lists the keys of \<^verbatim>\<open>headSet\<close> as one execution of the loop
  visits them.
\<close>

definition range_order :: "benchset \<Rightarrow> string list \<Rightarrow> bool" where
  "range_order headSet ks = (distinct ks \<and> set ks = dom headSet)"

definition compare :: "bool \<Rightarrow> string list \<Rightarrow> benchset \<Rightarrow> benchset \<Rightarrow> result list \<times> string list list" where
  "compare bmem ks prevSet headSet = foldl (compare_step bmem prevSet headSet) ([], []) ks"

definition ratios :: "bool \<Rightarrow> string list \<Rightarrow> benchset \<Rightarrow> benchset \<Rightarrow> result list" where
  "ratios bmem ks prevSet headSet = fst (compare bmem ks prevSet headSet)"

subsection \<open>The orchestration: lines 65 to 108 and 143 to 173\<close>

datatype error = External string | Errorf string error | New string

type_synonym hash = string

datatype call =
    PlainOpen
  | Head
  | ResolveRevision
  | Worktree
  | Reset hash
  | GoTest "string list"

text \<open>
  The world outside the process: the revision the working tree stands at (\<open>None\<close> when
  it is at no known revision) and the calls made so far, the oldest first.
\<close>

record world =
  tree :: "hash option"
  calls :: "call list"

text \<open>
  The outcomes of the calls that one execution of \<^verbatim>\<open>run\<close> makes to go-git and to the
  harness, in the order of the source, the parser, and the order in which the loop of
  line 112 visits the keys of \<^verbatim>\<open>headSet\<close>.
\<close>

record env =
  open_result :: "error option"
  head_result :: "error + hash"
  prev_result :: "error + hash"
  worktree_result :: "error option"
  reset_prev_result :: "error option"
  output_prev :: "error + string"
  reset_head_result :: "error option"
  output_head :: "error + string"
  ParseSet :: "string \<Rightarrow> error + benchset"
  range_keys :: "string list"

definition did :: "call \<Rightarrow> world \<Rightarrow> world" where
  "did c w = w\<lparr>calls := calls w @ [c]\<rparr>"

definition prepareBenchArgs :: "config \<Rightarrow> string list" where
  "prepareBenchArgs c =
     (let as = [''test'', ''-benchtime'', benchtime c, ''-bench'', bench c];
          as = (if benchmem c then as @ [''-benchmem''] else as)
      in as @ args c)"

text \<open>
  Lines 163 to 172: what \<^verbatim>\<open>runBenchmark\<close> returns, given the outcome \<open>out\<close> of
  \<^verbatim>\<open>exec.Command("go", args...).Output()\<close>.
\<close>

definition parse_output :: "env \<Rightarrow> error + string \<Rightarrow> error + benchset" where
  "parse_output e out =
     (case out of
        Inl err \<Rightarrow> Inl (Errorf ''failed to run 'go test' command'' err)
      | Inr b \<Rightarrow>
          (case ParseSet e b of
             Inl err \<Rightarrow> Inl (Errorf ''failed to parse a result of benchmarks'' err)
           | Inr s \<Rightarrow> Inr s))"

definition runBenchmark ::
  "env \<Rightarrow> error + string \<Rightarrow> string list \<Rightarrow> world \<Rightarrow> (error + benchset) \<times> world" where
  "runBenchmark e out as w = (parse_output e out, did (GoTest as) w)"

text \<open>
  \<^verbatim>\<open>w.Reset\<close> with \<^verbatim>\<open>git.HardReset\<close>, given its outcome: a reset that succeeds leaves
  the tree at the commit, one that fails leaves it at no known revision.
\<close>

definition hard_reset :: "error option \<Rightarrow> hash \<Rightarrow> world \<Rightarrow> error option \<times> world" where
  "hard_reset res h w =
     (case res of
        Some err \<Rightarrow> (Some err, did (Reset h) (w\<lparr>tree := None\<rparr>))
      | None \<Rightarrow> (None, did (Reset h) (w\<lparr>tree := Some h\<rparr>)))"

record report =
  raw :: result_table
  comparison :: ratio_table

text \<open>
  \<^verbatim>\<open>run\<close> returns an error or nil; the model returns the tables it printed, if it came
  that far, and the world it leaves. The two lines written with \<^verbatim>\<open>log.Printf\<close> are
  left out.
\<close>

definition run :: "env \<Rightarrow> config \<Rightarrow> world \<Rightarrow> error option \<times> report option \<times> world" where
  "run e c w0 =
     (let w = did PlainOpen w0 in
      case open_result e of
        Some err \<Rightarrow> (Some (Errorf ''unable to open the git repository'' err), None, w)
      | None \<Rightarrow>
     (let w = did Head w in
      case head_result e of
        Inl err \<Rightarrow>
          (Some (Errorf ''unable to get the reference where HEAD is pointing to'' err), None, w)
      | Inr head \<Rightarrow>
     (let w = did ResolveRevision w in
      case prev_result e of
        Inl err \<Rightarrow>
          (Some (Errorf ''unable to resolves revision to corresponding hash'' err), None, w)
      | Inr prev \<Rightarrow>
     (let w = did Worktree w in
      case worktree_result e of
        Some err \<Rightarrow>
          (Some (Errorf ''unable to get a worktree based on the given fs'' err), None, w)
      | None \<Rightarrow>
     (case hard_reset (reset_prev_result e) prev w of
        (Some err, w) \<Rightarrow>
          (Some (Errorf ''failed to reset the worktree to a previous commit'' err), None, w)
      | (None, w) \<Rightarrow>
     (let as = prepareBenchArgs c in
      case runBenchmark e (output_prev e) as w of
        (Inl err, w) \<Rightarrow> (Some (Errorf ''failed to run a benchmark'' err), None, w)
      | (Inr prevSet, w) \<Rightarrow>
     (case hard_reset (reset_head_result e) head w of
        (Some err, w) \<Rightarrow> (Some (Errorf ''failed to reset the worktree to HEAD'' err), None, w)
      | (None, w) \<Rightarrow>
     (case runBenchmark e (output_head e) as w of
        (Inl err, w) \<Rightarrow> (Some (Errorf ''failed to run a benchmark'' err), None, w)
      | (Inr headSet, w) \<Rightarrow>
     (let cmp = compare (benchmem c) (range_keys e) prevSet headSet;
          t1 = showResult (snd cmp) (benchmem c);
          sr = showRatio (fst cmp) (benchmem c) (threshold c) (onlyDegression c);
          rep = \<lparr>raw = t1, comparison = snd sr\<rparr>
      in if fst sr then (Some (New ''This commit makes benchmarks worse''), Some rep, w)
         else (None, Some rep, w))))))))))"

subsection \<open>Notions for the statements\<close>

text \<open>
  The keys for which the loop of line 112 reaches line 136, the \<^verbatim>\<open>result\<close> it appends
  for such a key, and the row that \<^verbatim>\<open>showRatio\<close> hands to \<^verbatim>\<open>table.Rich\<close> for a result
  it does not skip.
\<close>

definition matched :: "benchset \<Rightarrow> benchset \<Rightarrow> string \<Rightarrow> bool" where
  "matched prevSet headSet k =
     (case headSet k of
        None \<Rightarrow> False
      | Some hs \<Rightarrow> (case prevSet k of None \<Rightarrow> False | Some ps \<Rightarrow> hs \<noteq> [] \<and> ps \<noteq> []))"

definition result_of :: "benchset \<Rightarrow> benchset \<Rightarrow> string \<Rightarrow> result" where
  "result_of prevSet headSet k =
     \<lparr>result.Name = k,
      RatioNsPerOp = ratioNsPerOp (hd (the (prevSet k))) (hd (the (headSet k))),
      RatioAllocedBytesPerOp =
        ratioAllocedBytesPerOp (hd (the (prevSet k))) (hd (the (headSet k)))\<rparr>"

definition rich_row_of :: "bool \<Rightarrow> result \<Rightarrow> rich_row" where
  "rich_row_of bmem r =
     ([result.Name r, generateRatioItem (RatioNsPerOp r)] @
        (if bmem then [generateRatioItem (RatioAllocedBytesPerOp r)] else []),
      [Nil, generateColor (RatioNsPerOp r), generateColor (RatioAllocedBytesPerOp r)])"



section \<open>Properties\<close>

subsection \<open>Binary64 rounding\<close>



lemma round_half_even_of_int: "round_half_even (of_int k) = k"
  by (simp add: round_half_even_def)





subsection \<open>Formatting\<close>












lemma round64_0: "round64 0 = Finite 0"
  by (simp add: round64_def Let_def round_half_even_def)

lemma format_2f_0: "format_2f (Finite 0) = ''0.00''"
  by (simp add: format_2f.simps round_half_even_def string_of_nat.simps digit_char_def)

lemma generateRatioItem_eq:
  "generateRatioItem r =
     format_2f (round64 (\<bar>if \<bar>r\<bar> < 0.0001 then 0 else r\<bar> * 100)) @ ''%''"
  by (auto simp: generateRatioItem_def Let_def abs_if mult.commute)

lemma generateRatioItem_small:
  "\<bar>r\<bar> < 0.0001 \<Longrightarrow> generateRatioItem r = ''0.00%''"
  by (simp add: generateRatioItem_eq round64_0 format_2f_0)





subsection \<open>The loop of showRatio\<close>

lemma showRatio_loop_fst:
  "fst (showRatio_loop bmem thr onlyDeg st rs) =
     (fst st \<or> (\<exists>r \<in> set rs.
        \<not> (onlyDeg \<and> RatioNsPerOp r \<le> thr \<and> RatioAllocedBytesPerOp r \<le> thr)))"
  by (induction rs arbitrary: st) (auto simp: showRatio_step_def Let_def)

lemma showRatio_loop_snd:
  "snd (showRatio_loop bmem thr onlyDeg st rs) =
     snd st @ map (rich_row_of bmem)
       (filter (\<lambda>r. \<not> (onlyDeg \<and> RatioNsPerOp r \<le> thr \<and> RatioAllocedBytesPerOp r \<le> thr)) rs)"
  by (induction rs arbitrary: st) (auto simp: showRatio_step_def Let_def rich_row_of_def)

lemma showRatio_fst:
  "fst (showRatio rs bmem thr onlyDeg) =
     (\<exists>r \<in> set rs. \<not> (onlyDeg \<and> RatioNsPerOp r \<le> thr \<and> RatioAllocedBytesPerOp r \<le> thr))"
  by (simp add: showRatio_def Let_def showRatio_loop_fst)

lemma showRatio_rows:
  "rich_rows (snd (showRatio rs bmem thr onlyDeg)) =
     map (rich_row_of bmem)
       (filter (\<lambda>r. \<not> (onlyDeg \<and> RatioNsPerOp r \<le> thr \<and> RatioAllocedBytesPerOp r \<le> thr)) rs)"
  by (simp add: showRatio_def Let_def showRatio_loop_snd)

text \<open>
  With \<^verbatim>\<open>onlyDegression\<close> set the flag is the test against the threshold, on either
  ratio and whatever \<^verbatim>\<open>benchmem\<close> is; without it the flag only says that there was a
  result.
\<close>

lemma showRatio_only_degression:
  "fst (showRatio rs bmem thr True) =
     (\<exists>r \<in> set rs. thr < RatioNsPerOp r \<or> thr < RatioAllocedBytesPerOp r)"
proof -
  have "(\<not> (True \<and> a \<le> thr \<and> b \<le> thr)) = (thr < a \<or> thr < b)" for a b :: real
    by auto
  then show ?thesis
    unfolding showRatio_fst by simp
qed

lemma showRatio_all_rows:
  "fst (showRatio rs bmem thr False) = (rs \<noteq> [])"
  by (cases rs) (auto simp: showRatio_fst)

text \<open>
  Claim C1: the gate returns true exactly when some result has a ratio above the
  threshold, for either setting of \<^verbatim>\<open>onlyDegression\<close>; with threshold 0.1 and
  \<^verbatim>\<open>onlyDegression\<close> unset, a single result with ratio 0.05 gives false. The code sets
  \<^verbatim>\<open>degression\<close> at line 221 for every result that line 217 does not skip, and line 217
  skips nothing when \<^verbatim>\<open>onlyDegression\<close> is unset: on the claim's own input the code
  returns true, although no ratio is above the threshold.
\<close>

theorem showRatio_flags_ratio_below_threshold:
  "fst (showRatio [\<lparr>result.Name = ''BenchA'', RatioNsPerOp = 0.05,
                    RatioAllocedBytesPerOp = 0\<rparr>] False 0.1 False) = True \<and>
   \<not> (0.1 :: real) < 0.05 \<and> \<not> (0.1 :: real) < 0"
  by (simp add: showRatio_def showRatio_step_def)

text \<open>
  Claim C10: a ratio strictly between 0 and 0.0001 is shown as 0.00% and yet in the
  colour of a degression, since the colour is chosen from the ratio as computed: a
  ratio above 0 has the colour of a degression and any other the colour of an
  improvement, and \<^verbatim>\<open>showRatio\<close> colours the cells of each row it renders so.
\<close>

theorem generateColor_raw_ratio:
  "(0 < r \<and> r < 0.0001 \<longrightarrow>
      generateRatioItem r = ''0.00%'' \<and> generateColor r = [Bold, FgHiRedColor]) \<and>
   (0 < r \<longrightarrow> generateColor r = [Bold, FgHiRedColor]) \<and>
   (r \<le> 0 \<longrightarrow> generateColor r = [Bold, FgBlueColor]) \<and>
   (\<forall>row \<in> set (rich_rows (snd (showRatio rs bmem thr onlyDeg))).
      \<exists>x \<in> set rs. fst row ! 1 = generateRatioItem (RatioNsPerOp x) \<and>
        snd row ! 1 = generateColor (RatioNsPerOp x) \<and>
        snd row ! 2 = generateColor (RatioAllocedBytesPerOp x) \<and>
        (bmem \<longrightarrow> fst row ! 2 = generateRatioItem (RatioAllocedBytesPerOp x)))"
proof (intro conjI impI ballI)
  assume "0 < r \<and> r < 0.0001"
  then show "generateRatioItem r = ''0.00%''"
    by (intro generateRatioItem_small) simp
next
  fix row assume "row \<in> set (rich_rows (snd (showRatio rs bmem thr onlyDeg)))"
  then obtain x where "x \<in> set rs" and "row = rich_row_of bmem x"
    by (auto simp: showRatio_rows)
  then show "\<exists>x \<in> set rs. fst row ! 1 = generateRatioItem (RatioNsPerOp x) \<and>
        snd row ! 1 = generateColor (RatioNsPerOp x) \<and>
        snd row ! 2 = generateColor (RatioAllocedBytesPerOp x) \<and>
        (bmem \<longrightarrow> fst row ! 2 = generateRatioItem (RatioAllocedBytesPerOp x))"
    by (intro bexI [of _ x]) (simp_all add: rich_row_of_def)
qed (simp_all add: generateColor_def)

theorem generateColor_raw_ratio_witness:
  "generateRatioItem 0.00005 = ''0.00%'' \<and> generateColor 0.00005 = [Bold, FgHiRedColor] \<and>
   generateColor (- 0.00005) = [Bold, FgBlueColor] \<and>
   rich_rows (snd (showRatio [\<lparr>result.Name = ''BenchA'', RatioNsPerOp = 0.00005,
                    RatioAllocedBytesPerOp = 0\<rparr>] False 0.1 False)) =
     [([''BenchA'', ''0.00%''], [Nil, [Bold, FgHiRedColor], [Bold, FgBlueColor]])]"
proof -
  have "(0 :: real) < 0.00005 \<and> (0.00005 :: real) < 0.0001" by simp
  with generateColor_raw_ratio [of "0.00005"] have
    a: "generateRatioItem 0.00005 = ''0.00%''" "generateColor 0.00005 = [Bold, FgHiRedColor]"
    by blast+
  have "(- 0.00005 :: real) \<le> 0" by simp
  with generateColor_raw_ratio [of "- 0.00005"] have
    b: "generateColor (- 0.00005) = [Bold, FgBlueColor]"
    by blast
  have c: "generateColor 0 = [Bold, FgBlueColor]"
    by (simp add: generateColor_def)
  show ?thesis
    using a b by (simp add: c showRatio_def showRatio_step_def)
qed

text \<open>
  Claim C7: the gate compares the ratio as computed with the threshold, not the value
  shown: with \<^verbatim>\<open>onlyDegression\<close> set, a result whose ratio lies strictly between 0 and
  0.0001 and above the threshold is rendered and sets the flag, although its cell
  reads 0.00%.
\<close>

theorem showRatio_gate_raw_ratio:
  assumes "x \<in> set rs" and "0 < RatioNsPerOp x" and "RatioNsPerOp x < 0.0001"
    and "thr < RatioNsPerOp x"
  shows "fst (showRatio rs bmem thr True) \<and>
         (\<exists>row \<in> set (rich_rows (snd (showRatio rs bmem thr True))).
            fst row ! 0 = result.Name x \<and> fst row ! 1 = ''0.00%'')"
proof -
  have k: "\<not> (True \<and> RatioNsPerOp x \<le> thr \<and> RatioAllocedBytesPerOp x \<le> thr)"
    using assms(4) by simp
  have 1: "fst (showRatio rs bmem thr True)"
    unfolding showRatio_fst using assms(1) k by blast
  have "rich_row_of bmem x \<in> set (rich_rows (snd (showRatio rs bmem thr True)))"
    unfolding showRatio_rows using assms(1) k by simp
  moreover have "fst (rich_row_of bmem x) ! 0 = result.Name x"
    by (simp add: rich_row_of_def)
  moreover have "fst (rich_row_of bmem x) ! 1 = ''0.00%''"
    using assms(2,3) by (simp add: rich_row_of_def generateRatioItem_small)
  ultimately show ?thesis
    using 1 by blast
qed

theorem showRatio_gate_raw_ratio_witness:
  "showRatio [\<lparr>result.Name = ''BenchA'', RatioNsPerOp = 0.00005,
               RatioAllocedBytesPerOp = 0\<rparr>] False 0.00001 True =
     (True, \<lparr>headers = [''Name'', ''NsPerOp''],
             rich_rows = [([''BenchA'', ''0.00%''],
                           [Nil, [Bold, FgHiRedColor], [Bold, FgBlueColor]])]\<rparr>)"
proof -
  have "fst (showRatio [\<lparr>result.Name = ''BenchA'', RatioNsPerOp = 0.00005,
               RatioAllocedBytesPerOp = 0\<rparr>] False 0.00001 True)"
    using showRatio_gate_raw_ratio [of "\<lparr>result.Name = ''BenchA'', RatioNsPerOp = 0.00005,
               RatioAllocedBytesPerOp = 0\<rparr>" "[\<lparr>result.Name = ''BenchA'', RatioNsPerOp = 0.00005,
               RatioAllocedBytesPerOp = 0\<rparr>]" "0.00001" False]
    by simp
  moreover have "snd (showRatio [\<lparr>result.Name = ''BenchA'', RatioNsPerOp = 0.00005,
               RatioAllocedBytesPerOp = 0\<rparr>] False 0.00001 True) =
     \<lparr>headers = [''Name'', ''NsPerOp''],
             rich_rows = [([''BenchA'', ''0.00%''],
                           [Nil, [Bold, FgHiRedColor], [Bold, FgBlueColor]])]\<rparr>"
    by (simp add: showRatio_def showRatio_step_def generateRatioItem_small generateColor_def)
  ultimately show ?thesis
    by (simp add: prod_eq_iff)
qed


subsection \<open>The comparison\<close>

lemma compare_step_fst:
  "fst (compare_step bmem prevSet headSet st k) =
     fst st @ (if matched prevSet headSet k then [result_of prevSet headSet k] else [])"
  by (auto simp: compare_step_def matched_def result_of_def Let_def hd_conv_nth
           split: option.splits)

lemma foldl_compare_step_fst:
  "fst (foldl (compare_step bmem prevSet headSet) st ks) =
     fst st @ map (result_of prevSet headSet) (filter (matched prevSet headSet) ks)"
  by (induction ks arbitrary: st) (simp_all add: compare_step_fst)

lemma ratios_eq:
  "ratios bmem ks prevSet headSet =
     map (result_of prevSet headSet) (filter (matched prevSet headSet) ks)"
  by (simp add: ratios_def compare_def foldl_compare_step_fst)

lemma Name_result_of: "result.Name (result_of prevSet headSet k) = k"
  by (simp add: result_of_def)

lemma names_ratios:
  "map result.Name (ratios bmem ks prevSet headSet) = filter (matched prevSet headSet) ks"
  by (simp add: ratios_eq o_def Name_result_of)

lemma matched_iff:
  "matched prevSet headSet k \<longleftrightarrow>
     (\<exists>h hs p ps. headSet k = Some (h # hs) \<and> prevSet k = Some (p # ps))"
  by (auto simp: matched_def neq_Nil_conv split: option.splits)

lemma take1_eq:
  "map_option (take 1) a = map_option (take 1) b \<Longrightarrow>
     (a = None \<longleftrightarrow> b = None) \<and> (the a = [] \<longleftrightarrow> the b = []) \<and> hd (the a) = hd (the b)"
  by (cases a; cases b; cases "the a"; cases "the b") auto

text \<open>
  Claim C4: the comparison yields exactly one result for each name that both sets hold
  with a record sequence that is not empty, and none for any other name; the names of
  the output are among the names common to the two sets. The comparison has no error
  to return: it is a total function to a list. The keys \<open>ks\<close> are those of
  \<^verbatim>\<open>headSet\<close>, each once, in the order of the loop.
\<close>

theorem ratios_names:
  assumes "range_order headSet ks"
  shows "distinct (map result.Name (ratios bmem ks prevSet headSet)) \<and>
         set (map result.Name (ratios bmem ks prevSet headSet)) =
           {k. \<exists>h hs p ps. headSet k = Some (h # hs) \<and> prevSet k = Some (p # ps)} \<and>
         set (map result.Name (ratios bmem ks prevSet headSet)) \<subseteq> dom prevSet \<inter> dom headSet"
proof -
  from assms have d: "distinct ks" and s: "set ks = dom headSet"
    by (simp_all add: range_order_def)
  have 1: "distinct (map result.Name (ratios bmem ks prevSet headSet))"
    using d by (simp add: names_ratios)
  have 2: "set (map result.Name (ratios bmem ks prevSet headSet)) =
           {k. \<exists>h hs p ps. headSet k = Some (h # hs) \<and> prevSet k = Some (p # ps)}"
    unfolding names_ratios using s by (auto simp: matched_iff)
  have 3: "set (map result.Name (ratios bmem ks prevSet headSet)) \<subseteq> dom prevSet \<inter> dom headSet"
    unfolding 2 by auto
  from 1 2 3 show ?thesis by blast
qed

theorem ratios_names_witness:
  "range_order
     [''BenchA'' \<mapsto> [\<lparr>Benchmark.Name = ''BenchA'', NsPerOp = 120, AllocedBytesPerOp = 0\<rparr>],
      ''BenchB'' \<mapsto> [\<lparr>Benchmark.Name = ''BenchB'', NsPerOp = 50, AllocedBytesPerOp = 0\<rparr>],
      ''BenchC'' \<mapsto> []]
     [''BenchC'', ''BenchB'', ''BenchA''] \<and>
   map result.Name (ratios False [''BenchC'', ''BenchB'', ''BenchA'']
     [''BenchA'' \<mapsto> [\<lparr>Benchmark.Name = ''BenchA'', NsPerOp = 100, AllocedBytesPerOp = 0\<rparr>],
      ''BenchC'' \<mapsto> [\<lparr>Benchmark.Name = ''BenchC'', NsPerOp = 7, AllocedBytesPerOp = 0\<rparr>],
      ''BenchD'' \<mapsto> [\<lparr>Benchmark.Name = ''BenchD'', NsPerOp = 7, AllocedBytesPerOp = 0\<rparr>]]
     [''BenchA'' \<mapsto> [\<lparr>Benchmark.Name = ''BenchA'', NsPerOp = 120, AllocedBytesPerOp = 0\<rparr>],
      ''BenchB'' \<mapsto> [\<lparr>Benchmark.Name = ''BenchB'', NsPerOp = 50, AllocedBytesPerOp = 0\<rparr>],
      ''BenchC'' \<mapsto> []]) = [''BenchA'']"
proof -
  have h: "range_order
     [''BenchA'' \<mapsto> [\<lparr>Benchmark.Name = ''BenchA'', NsPerOp = 120, AllocedBytesPerOp = 0\<rparr>],
      ''BenchB'' \<mapsto> [\<lparr>Benchmark.Name = ''BenchB'', NsPerOp = 50, AllocedBytesPerOp = 0\<rparr>],
      ''BenchC'' \<mapsto> []]
     [''BenchC'', ''BenchB'', ''BenchA'']"
    by (auto simp: range_order_def)
  show ?thesis
    using h ratios_names [OF h, of False
     "[''BenchA'' \<mapsto> [\<lparr>Benchmark.Name = ''BenchA'', NsPerOp = 100, AllocedBytesPerOp = 0\<rparr>],
      ''BenchC'' \<mapsto> [\<lparr>Benchmark.Name = ''BenchC'', NsPerOp = 7, AllocedBytesPerOp = 0\<rparr>],
      ''BenchD'' \<mapsto> [\<lparr>Benchmark.Name = ''BenchD'', NsPerOp = 7, AllocedBytesPerOp = 0\<rparr>]]"]
    by (simp add: ratios_def compare_def compare_step_def Let_def)
qed

text \<open>
  Claim C6: the ratios of a result are computed from the first record of its name's
  sequence in each set, and the records after the first are ignored: each result of
  the output is made from the two first records, and two pairs of sets that agree on
  the first record of every sequence give the same output.
\<close>

theorem ratios_first_record:
  "(\<forall>r \<in> set (ratios bmem ks prevSet headSet).
      \<exists>p ps h hs. prevSet (result.Name r) = Some (p # ps) \<and>
        headSet (result.Name r) = Some (h # hs) \<and>
        RatioNsPerOp r = ratioNsPerOp p h \<and>
        RatioAllocedBytesPerOp r = ratioAllocedBytesPerOp p h) \<and>
   ((\<forall>k. map_option (take 1) (prevSet' k) = map_option (take 1) (prevSet k)) \<and>
    (\<forall>k. map_option (take 1) (headSet' k) = map_option (take 1) (headSet k)) \<longrightarrow>
    ratios bmem ks prevSet' headSet' = ratios bmem ks prevSet headSet)"
proof (intro conjI ballI impI)
  fix r assume "r \<in> set (ratios bmem ks prevSet headSet)"
  then obtain k where k: "matched prevSet headSet k" and r: "r = result_of prevSet headSet k"
    by (auto simp: ratios_eq)
  from k obtain h hs p ps where "headSet k = Some (h # hs)" "prevSet k = Some (p # ps)"
    by (auto simp: matched_iff)
  then show "\<exists>p ps h hs. prevSet (result.Name r) = Some (p # ps) \<and>
        headSet (result.Name r) = Some (h # hs) \<and>
        RatioNsPerOp r = ratioNsPerOp p h \<and>
        RatioAllocedBytesPerOp r = ratioAllocedBytesPerOp p h"
    by (simp add: r result_of_def)
next
  assume a: "(\<forall>k. map_option (take 1) (prevSet' k) = map_option (take 1) (prevSet k)) \<and>
    (\<forall>k. map_option (take 1) (headSet' k) = map_option (take 1) (headSet k))"
  from a have pk: "map_option (take 1) (prevSet' k) = map_option (take 1) (prevSet k)"
    and hk: "map_option (take 1) (headSet' k) = map_option (take 1) (headSet k)" for k
    by blast+
  have m: "matched prevSet' headSet' k = matched prevSet headSet k" for k
    using take1_eq [OF pk [of k]] take1_eq [OF hk [of k]]
    by (cases "prevSet' k"; cases "prevSet k"; cases "headSet' k"; cases "headSet k")
       (simp_all add: matched_def)
  have f: "result_of prevSet' headSet' k = result_of prevSet headSet k" for k
    using take1_eq [OF pk [of k]] take1_eq [OF hk [of k]]
    by (simp add: result_of_def)
  have "matched prevSet' headSet' = matched prevSet headSet"
    and "result_of prevSet' headSet' = result_of prevSet headSet"
    using m f by auto
  then show "ratios bmem ks prevSet' headSet' = ratios bmem ks prevSet headSet"
    by (simp add: ratios_eq)
qed

theorem ratios_first_record_witness:
  "ratios True [''BenchA'']
     [''BenchA'' \<mapsto> [\<lparr>Benchmark.Name = ''BenchA'', NsPerOp = 100, AllocedBytesPerOp = 8\<rparr>,
                    \<lparr>Benchmark.Name = ''BenchA'', NsPerOp = 300, AllocedBytesPerOp = 64\<rparr>]]
     [''BenchA'' \<mapsto> [\<lparr>Benchmark.Name = ''BenchA'', NsPerOp = 120, AllocedBytesPerOp = 16\<rparr>,
                    \<lparr>Benchmark.Name = ''BenchA'', NsPerOp = 90, AllocedBytesPerOp = 2\<rparr>]]
   = ratios True [''BenchA'']
     [''BenchA'' \<mapsto> [\<lparr>Benchmark.Name = ''BenchA'', NsPerOp = 100, AllocedBytesPerOp = 8\<rparr>]]
     [''BenchA'' \<mapsto> [\<lparr>Benchmark.Name = ''BenchA'', NsPerOp = 120, AllocedBytesPerOp = 16\<rparr>]] \<and>
   ratios True [''BenchA'']
     [''BenchA'' \<mapsto> [\<lparr>Benchmark.Name = ''BenchA'', NsPerOp = 100, AllocedBytesPerOp = 8\<rparr>,
                    \<lparr>Benchmark.Name = ''BenchA'', NsPerOp = 300, AllocedBytesPerOp = 64\<rparr>]]
     [''BenchA'' \<mapsto> [\<lparr>Benchmark.Name = ''BenchA'', NsPerOp = 120, AllocedBytesPerOp = 16\<rparr>,
                    \<lparr>Benchmark.Name = ''BenchA'', NsPerOp = 90, AllocedBytesPerOp = 2\<rparr>]]
   = [\<lparr>result.Name = ''BenchA'', RatioNsPerOp = 0.2, RatioAllocedBytesPerOp = 1\<rparr>]"
proof -
  have p: "\<forall>k. map_option (take 1)
      ([''BenchA'' \<mapsto> [\<lparr>Benchmark.Name = ''BenchA'', NsPerOp = 100, AllocedBytesPerOp = 8\<rparr>,
                    \<lparr>Benchmark.Name = ''BenchA'', NsPerOp = 300, AllocedBytesPerOp = 64\<rparr>]] k)
    = map_option (take 1)
      ([''BenchA'' \<mapsto> [\<lparr>Benchmark.Name = ''BenchA'', NsPerOp = 100, AllocedBytesPerOp = 8\<rparr>]] k)"
    by simp
  have h: "\<forall>k. map_option (take 1)
      ([''BenchA'' \<mapsto> [\<lparr>Benchmark.Name = ''BenchA'', NsPerOp = 120, AllocedBytesPerOp = 16\<rparr>,
                    \<lparr>Benchmark.Name = ''BenchA'', NsPerOp = 90, AllocedBytesPerOp = 2\<rparr>]] k)
    = map_option (take 1)
      ([''BenchA'' \<mapsto> [\<lparr>Benchmark.Name = ''BenchA'', NsPerOp = 120, AllocedBytesPerOp = 16\<rparr>]] k)"
    by simp
  have v: "ratios True [''BenchA'']
     [''BenchA'' \<mapsto> [\<lparr>Benchmark.Name = ''BenchA'', NsPerOp = 100, AllocedBytesPerOp = 8\<rparr>]]
     [''BenchA'' \<mapsto> [\<lparr>Benchmark.Name = ''BenchA'', NsPerOp = 120, AllocedBytesPerOp = 16\<rparr>]]
   = [\<lparr>result.Name = ''BenchA'', RatioNsPerOp = 0.2, RatioAllocedBytesPerOp = 1\<rparr>]"
    by (simp add: ratios_def compare_def compare_step_def Let_def ratioNsPerOp_def
          ratioAllocedBytesPerOp_def)
  have "ratios True [''BenchA'']
     [''BenchA'' \<mapsto> [\<lparr>Benchmark.Name = ''BenchA'', NsPerOp = 100, AllocedBytesPerOp = 8\<rparr>,
                    \<lparr>Benchmark.Name = ''BenchA'', NsPerOp = 300, AllocedBytesPerOp = 64\<rparr>]]
     [''BenchA'' \<mapsto> [\<lparr>Benchmark.Name = ''BenchA'', NsPerOp = 120, AllocedBytesPerOp = 16\<rparr>,
                    \<lparr>Benchmark.Name = ''BenchA'', NsPerOp = 90, AllocedBytesPerOp = 2\<rparr>]]
   = ratios True [''BenchA'']
     [''BenchA'' \<mapsto> [\<lparr>Benchmark.Name = ''BenchA'', NsPerOp = 100, AllocedBytesPerOp = 8\<rparr>]]
     [''BenchA'' \<mapsto> [\<lparr>Benchmark.Name = ''BenchA'', NsPerOp = 120, AllocedBytesPerOp = 16\<rparr>]]"
    by (rule ratios_first_record [of True "[''BenchA'']"
     "[''BenchA'' \<mapsto> [\<lparr>Benchmark.Name = ''BenchA'', NsPerOp = 100, AllocedBytesPerOp = 8\<rparr>]]"
     "[''BenchA'' \<mapsto> [\<lparr>Benchmark.Name = ''BenchA'', NsPerOp = 120, AllocedBytesPerOp = 16\<rparr>]]"
     "[''BenchA'' \<mapsto> [\<lparr>Benchmark.Name = ''BenchA'', NsPerOp = 100, AllocedBytesPerOp = 8\<rparr>,
                    \<lparr>Benchmark.Name = ''BenchA'', NsPerOp = 300, AllocedBytesPerOp = 64\<rparr>]]"
     "[''BenchA'' \<mapsto> [\<lparr>Benchmark.Name = ''BenchA'', NsPerOp = 120, AllocedBytesPerOp = 16\<rparr>,
                    \<lparr>Benchmark.Name = ''BenchA'', NsPerOp = 90, AllocedBytesPerOp = 2\<rparr>]]",
     THEN conjunct2, THEN mp]) (intro conjI p h)
  then show ?thesis
    by (simp only: v simp_thms)
qed

text \<open>
  Claim C9: two invocations of the comparison on the same two sets yield the same
  results in the same order. The order of the output is the order in which the loop
  of line 112 visits the keys of the map, which Go leaves open and the code does not
  fix by sorting: two visits of the same map in different orders give different
  sequences.
\<close>

theorem ratios_order_counterexample:
  "range_order
     [''BenchA'' \<mapsto> [\<lparr>Benchmark.Name = ''BenchA'', NsPerOp = 120, AllocedBytesPerOp = 0\<rparr>],
      ''BenchB'' \<mapsto> [\<lparr>Benchmark.Name = ''BenchB'', NsPerOp = 50, AllocedBytesPerOp = 0\<rparr>]]
     [''BenchA'', ''BenchB''] \<and>
   range_order
     [''BenchA'' \<mapsto> [\<lparr>Benchmark.Name = ''BenchA'', NsPerOp = 120, AllocedBytesPerOp = 0\<rparr>],
      ''BenchB'' \<mapsto> [\<lparr>Benchmark.Name = ''BenchB'', NsPerOp = 50, AllocedBytesPerOp = 0\<rparr>]]
     [''BenchB'', ''BenchA''] \<and>
   ratios False [''BenchA'', ''BenchB'']
     [''BenchA'' \<mapsto> [\<lparr>Benchmark.Name = ''BenchA'', NsPerOp = 100, AllocedBytesPerOp = 0\<rparr>],
      ''BenchB'' \<mapsto> [\<lparr>Benchmark.Name = ''BenchB'', NsPerOp = 50, AllocedBytesPerOp = 0\<rparr>]]
     [''BenchA'' \<mapsto> [\<lparr>Benchmark.Name = ''BenchA'', NsPerOp = 120, AllocedBytesPerOp = 0\<rparr>],
      ''BenchB'' \<mapsto> [\<lparr>Benchmark.Name = ''BenchB'', NsPerOp = 50, AllocedBytesPerOp = 0\<rparr>]]
   \<noteq>
   ratios False [''BenchB'', ''BenchA'']
     [''BenchA'' \<mapsto> [\<lparr>Benchmark.Name = ''BenchA'', NsPerOp = 100, AllocedBytesPerOp = 0\<rparr>],
      ''BenchB'' \<mapsto> [\<lparr>Benchmark.Name = ''BenchB'', NsPerOp = 50, AllocedBytesPerOp = 0\<rparr>]]
     [''BenchA'' \<mapsto> [\<lparr>Benchmark.Name = ''BenchA'', NsPerOp = 120, AllocedBytesPerOp = 0\<rparr>],
      ''BenchB'' \<mapsto> [\<lparr>Benchmark.Name = ''BenchB'', NsPerOp = 50, AllocedBytesPerOp = 0\<rparr>]]"
  by (auto simp: range_order_def ratios_def compare_def compare_step_def Let_def)

text \<open>
  Claim C9, amended: two invocations on the same two sets yield the same results, each
  exactly once, whatever the two orders in which the keys are visited; the two
  sequences are identical exactly when the two visits meet the names that are compared
  (those with a record sequence that is not empty in both sets) in the same order.
\<close>

theorem ratios_same_results:
  assumes "range_order headSet ks" and "range_order headSet ks'"
  shows "mset (ratios bmem ks prevSet headSet) = mset (ratios bmem ks' prevSet headSet) \<and>
         (ratios bmem ks prevSet headSet = ratios bmem ks' prevSet headSet \<longleftrightarrow>
            filter (matched prevSet headSet) ks = filter (matched prevSet headSet) ks')"
proof -
  from assms have "mset ks = mset ks'"
    by (simp add: range_order_def set_eq_iff_mset_eq_distinct[symmetric])
  then have 1: "mset (ratios bmem ks prevSet headSet) = mset (ratios bmem ks' prevSet headSet)"
    by (simp add: ratios_eq)
  have "inj (result_of prevSet headSet)"
    by (rule inj_on_inverseI [where g = result.Name]) (rule Name_result_of)
  then have 2: "ratios bmem ks prevSet headSet = ratios bmem ks' prevSet headSet \<longleftrightarrow>
      filter (matched prevSet headSet) ks = filter (matched prevSet headSet) ks'"
    unfolding ratios_eq by (rule inj_map_eq_map)
  from 1 2 show ?thesis by (rule conjI)
qed

theorem ratios_same_results_witness:
  "mset (ratios False [''BenchA'', ''BenchB'']
     [''BenchA'' \<mapsto> [\<lparr>Benchmark.Name = ''BenchA'', NsPerOp = 100, AllocedBytesPerOp = 0\<rparr>],
      ''BenchB'' \<mapsto> [\<lparr>Benchmark.Name = ''BenchB'', NsPerOp = 50, AllocedBytesPerOp = 0\<rparr>]]
     [''BenchA'' \<mapsto> [\<lparr>Benchmark.Name = ''BenchA'', NsPerOp = 120, AllocedBytesPerOp = 0\<rparr>],
      ''BenchB'' \<mapsto> [\<lparr>Benchmark.Name = ''BenchB'', NsPerOp = 50, AllocedBytesPerOp = 0\<rparr>]])
   = mset (ratios False [''BenchB'', ''BenchA'']
     [''BenchA'' \<mapsto> [\<lparr>Benchmark.Name = ''BenchA'', NsPerOp = 100, AllocedBytesPerOp = 0\<rparr>],
      ''BenchB'' \<mapsto> [\<lparr>Benchmark.Name = ''BenchB'', NsPerOp = 50, AllocedBytesPerOp = 0\<rparr>]]
     [''BenchA'' \<mapsto> [\<lparr>Benchmark.Name = ''BenchA'', NsPerOp = 120, AllocedBytesPerOp = 0\<rparr>],
      ''BenchB'' \<mapsto> [\<lparr>Benchmark.Name = ''BenchB'', NsPerOp = 50, AllocedBytesPerOp = 0\<rparr>]])"
proof -
  have h1: "range_order
     [''BenchA'' \<mapsto> [\<lparr>Benchmark.Name = ''BenchA'', NsPerOp = 120, AllocedBytesPerOp = 0\<rparr>],
      ''BenchB'' \<mapsto> [\<lparr>Benchmark.Name = ''BenchB'', NsPerOp = 50, AllocedBytesPerOp = 0\<rparr>]]
     [''BenchA'', ''BenchB'']"
    by (auto simp: range_order_def)
  have h2: "range_order
     [''BenchA'' \<mapsto> [\<lparr>Benchmark.Name = ''BenchA'', NsPerOp = 120, AllocedBytesPerOp = 0\<rparr>],
      ''BenchB'' \<mapsto> [\<lparr>Benchmark.Name = ''BenchB'', NsPerOp = 50, AllocedBytesPerOp = 0\<rparr>]]
     [''BenchB'', ''BenchA'']"
    by (auto simp: range_order_def)
  show ?thesis
    using ratios_same_results [OF h1 h2] by (rule conjunct1)
qed

subsection \<open>The ratios\<close>

lemma ratioNsPerOp_eq:
  "ratioNsPerOp p h =
     (if NsPerOp p = 0 then 0 else (NsPerOp h - NsPerOp p) / NsPerOp p)"
  by (simp add: ratioNsPerOp_def)

text \<open>
  The ratio of the bytes is the quotient of the claim as long as the candidate does not
  allocate less than the baseline.
\<close>

lemma ratioAllocedBytesPerOp_no_wrap:
  assumes "AllocedBytesPerOp p \<le> AllocedBytesPerOp h"
  shows "ratioAllocedBytesPerOp p h =
     (if AllocedBytesPerOp p = 0 then 0
      else (real (unat (AllocedBytesPerOp h)) - real (unat (AllocedBytesPerOp p)))
           / real (unat (AllocedBytesPerOp p)))"
proof -
  from assms have "unat (AllocedBytesPerOp p) \<le> unat (AllocedBytesPerOp h)"
    by (simp add: word_le_nat_alt)
  moreover from assms have "unat (AllocedBytesPerOp h - AllocedBytesPerOp p) =
      unat (AllocedBytesPerOp h) - unat (AllocedBytesPerOp p)"
    by (rule unat_sub)
  ultimately show ?thesis
    by (simp add: ratioAllocedBytesPerOp_def)
qed

text \<open>
  Claim C2: the ratio of a metric is (candidate - baseline) / baseline when the
  baseline is not zero, and 0 when it is, for the time and for the bytes. For the bytes
  the code subtracts in \<^verbatim>\<open>uint64\<close> (line 130): with a baseline of 100 bytes and a
  candidate of 50 the difference wraps around to 2^64 - 50, and the ratio is a huge
  positive number where the claim has -0.5.
\<close>

theorem ratioAllocedBytesPerOp_wraps_around:
  "ratioAllocedBytesPerOp
     \<lparr>Benchmark.Name = ''BenchA'', NsPerOp = 100, AllocedBytesPerOp = 100\<rparr>
     \<lparr>Benchmark.Name = ''BenchA'', NsPerOp = 100, AllocedBytesPerOp = 50\<rparr>
   = (2 ^ 64 - 50) / 100 \<and>
   (real 50 - real 100) / real 100 = - 0.5 \<and>
   ratios True [''BenchA'']
     [''BenchA'' \<mapsto> [\<lparr>Benchmark.Name = ''BenchA'', NsPerOp = 100, AllocedBytesPerOp = 100\<rparr>]]
     [''BenchA'' \<mapsto> [\<lparr>Benchmark.Name = ''BenchA'', NsPerOp = 100, AllocedBytesPerOp = 50\<rparr>]]
   = [\<lparr>result.Name = ''BenchA'', RatioNsPerOp = 0,
       RatioAllocedBytesPerOp = (2 ^ 64 - 50) / 100\<rparr>]"
  by (simp add: ratioAllocedBytesPerOp_def ratioNsPerOp_def ratios_def compare_def
        compare_step_def Let_def)

text \<open>
  Claim C3: for the baseline BenchA at 100 and the candidates BenchA at 120 and BenchB
  at 50 the comparison yields the one result for BenchA, with ratio 0.2, whatever the
  order of the keys; the gate with threshold 0.1 returns true, and with threshold 0.25
  false. With \<^verbatim>\<open>onlyDegression\<close> unset the code returns true at threshold 0.25 as well,
  by the defect of claim C1.
\<close>

theorem end_to_end_flagged_at_threshold_025:
  "ratios False [''BenchA'', ''BenchB'']
     [''BenchA'' \<mapsto> [\<lparr>Benchmark.Name = ''BenchA'', NsPerOp = 100, AllocedBytesPerOp = 0\<rparr>]]
     [''BenchA'' \<mapsto> [\<lparr>Benchmark.Name = ''BenchA'', NsPerOp = 120, AllocedBytesPerOp = 0\<rparr>],
      ''BenchB'' \<mapsto> [\<lparr>Benchmark.Name = ''BenchB'', NsPerOp = 50, AllocedBytesPerOp = 0\<rparr>]]
   = [\<lparr>result.Name = ''BenchA'', RatioNsPerOp = 0.2, RatioAllocedBytesPerOp = 0\<rparr>] \<and>
   ratios False [''BenchB'', ''BenchA'']
     [''BenchA'' \<mapsto> [\<lparr>Benchmark.Name = ''BenchA'', NsPerOp = 100, AllocedBytesPerOp = 0\<rparr>]]
     [''BenchA'' \<mapsto> [\<lparr>Benchmark.Name = ''BenchA'', NsPerOp = 120, AllocedBytesPerOp = 0\<rparr>],
      ''BenchB'' \<mapsto> [\<lparr>Benchmark.Name = ''BenchB'', NsPerOp = 50, AllocedBytesPerOp = 0\<rparr>]]
   = [\<lparr>result.Name = ''BenchA'', RatioNsPerOp = 0.2, RatioAllocedBytesPerOp = 0\<rparr>] \<and>
   fst (showRatio [\<lparr>result.Name = ''BenchA'', RatioNsPerOp = 0.2,
                    RatioAllocedBytesPerOp = 0\<rparr>] False 0.1 False) = True \<and>
   fst (showRatio [\<lparr>result.Name = ''BenchA'', RatioNsPerOp = 0.2,
                    RatioAllocedBytesPerOp = 0\<rparr>] False 0.25 False) = True \<and>
   fst (showRatio [\<lparr>result.Name = ''BenchA'', RatioNsPerOp = 0.2,
                    RatioAllocedBytesPerOp = 0\<rparr>] False 0.25 True) = False"
  by (simp add: ratioAllocedBytesPerOp_def ratioNsPerOp_def ratios_def compare_def
        compare_step_def Let_def showRatio_def showRatio_step_def)

subsection \<open>The orchestration\<close>

text \<open>
  Claim C5: the run opens the repository, resolves HEAD, resolves HEAD~1, resets the
  working tree hard to the predecessor (lines 81 to 89: it takes the worktree of the
  repository and resets it), runs the harness for the baseline, resets the tree hard
  to HEAD and runs the harness for the candidate, in this order. The first step that
  fails makes the run return that error, wrapped, with no call after it and none
  repeated. When the baseline run fails the tree is not reset to HEAD: it stays at the
  predecessor.
\<close>

theorem run_fail_fast:
  "(\<forall>err. open_result e = Some err \<longrightarrow>
      fst (run e c w0) = Some (Errorf ''unable to open the git repository'' err) \<and>
      calls (snd (snd (run e c w0))) = calls w0 @ [PlainOpen] \<and>
      tree (snd (snd (run e c w0))) = tree w0) \<and>
   (open_result e = None \<longrightarrow>
   (\<forall>err. head_result e = Inl err \<longrightarrow>
      fst (run e c w0) =
        Some (Errorf ''unable to get the reference where HEAD is pointing to'' err) \<and>
      calls (snd (snd (run e c w0))) = calls w0 @ [PlainOpen, Head] \<and>
      tree (snd (snd (run e c w0))) = tree w0) \<and>
   (\<forall>head. head_result e = Inr head \<longrightarrow>
   (\<forall>err. prev_result e = Inl err \<longrightarrow>
      fst (run e c w0) =
        Some (Errorf ''unable to resolves revision to corresponding hash'' err) \<and>
      calls (snd (snd (run e c w0))) = calls w0 @ [PlainOpen, Head, ResolveRevision] \<and>
      tree (snd (snd (run e c w0))) = tree w0) \<and>
   (\<forall>prev. prev_result e = Inr prev \<longrightarrow>
   (\<forall>err. worktree_result e = Some err \<longrightarrow>
      fst (run e c w0) =
        Some (Errorf ''unable to get a worktree based on the given fs'' err) \<and>
      calls (snd (snd (run e c w0))) =
        calls w0 @ [PlainOpen, Head, ResolveRevision, Worktree] \<and>
      tree (snd (snd (run e c w0))) = tree w0) \<and>
   (worktree_result e = None \<longrightarrow>
   (\<forall>err. reset_prev_result e = Some err \<longrightarrow>
      fst (run e c w0) =
        Some (Errorf ''failed to reset the worktree to a previous commit'' err) \<and>
      calls (snd (snd (run e c w0))) =
        calls w0 @ [PlainOpen, Head, ResolveRevision, Worktree, Reset prev]) \<and>
   (reset_prev_result e = None \<longrightarrow>
   (\<forall>err. parse_output e (output_prev e) = Inl err \<longrightarrow>
      fst (run e c w0) = Some (Errorf ''failed to run a benchmark'' err) \<and>
      calls (snd (snd (run e c w0))) =
        calls w0 @ [PlainOpen, Head, ResolveRevision, Worktree, Reset prev,
                    GoTest (prepareBenchArgs c)] \<and>
      tree (snd (snd (run e c w0))) = Some prev) \<and>
   (\<forall>prevSet. parse_output e (output_prev e) = Inr prevSet \<longrightarrow>
   (\<forall>err. reset_head_result e = Some err \<longrightarrow>
      fst (run e c w0) = Some (Errorf ''failed to reset the worktree to HEAD'' err) \<and>
      calls (snd (snd (run e c w0))) =
        calls w0 @ [PlainOpen, Head, ResolveRevision, Worktree, Reset prev,
                    GoTest (prepareBenchArgs c), Reset head]) \<and>
   (reset_head_result e = None \<longrightarrow>
   (\<forall>err. parse_output e (output_head e) = Inl err \<longrightarrow>
      fst (run e c w0) = Some (Errorf ''failed to run a benchmark'' err) \<and>
      calls (snd (snd (run e c w0))) =
        calls w0 @ [PlainOpen, Head, ResolveRevision, Worktree, Reset prev,
                    GoTest (prepareBenchArgs c), Reset head, GoTest (prepareBenchArgs c)] \<and>
      tree (snd (snd (run e c w0))) = Some head) \<and>
   (\<forall>headSet. parse_output e (output_head e) = Inr headSet \<longrightarrow>
      (fst (run e c w0) = None \<or>
       fst (run e c w0) = Some (New ''This commit makes benchmarks worse'')) \<and>
      calls (snd (snd (run e c w0))) =
        calls w0 @ [PlainOpen, Head, ResolveRevision, Worktree, Reset prev,
                    GoTest (prepareBenchArgs c), Reset head, GoTest (prepareBenchArgs c)] \<and>
      tree (snd (snd (run e c w0))) = Some head))))))))"
  by (simp add: run_def hard_reset_def runBenchmark_def did_def Let_def)

theorem run_fail_fast_witness:
  "run \<lparr>open_result = None, head_result = Inr ''c0ffee'', prev_result = Inr ''decade'',
        worktree_result = None, reset_prev_result = None,
        output_prev = Inl (External ''exit status 1''),
        reset_head_result = None, output_head = Inr [],
        ParseSet = (\<lambda>b. Inr Map.empty), range_keys = []\<rparr>
       \<lparr>onlyDegression = False, threshold = 0.1, bench = ''.'', benchmem = False,
        benchtime = ''1s'', args = []\<rparr>
       \<lparr>tree = Some ''c0ffee'', calls = []\<rparr>
   = (Some (Errorf ''failed to run a benchmark''
             (Errorf ''failed to run 'go test' command'' (External ''exit status 1''))),
      None,
      \<lparr>tree = Some ''decade'',
       calls = [PlainOpen, Head, ResolveRevision, Worktree, Reset ''decade'',
                GoTest [''test'', ''-benchtime'', ''1s'', ''-bench'', ''.'']]\<rparr>)"
proof -
  let ?e = "\<lparr>open_result = None, head_result = Inr ''c0ffee'', prev_result = Inr ''decade'',
        worktree_result = None, reset_prev_result = None,
        output_prev = Inl (External ''exit status 1''),
        reset_head_result = None, output_head = Inr [],
        ParseSet = (\<lambda>b. Inr Map.empty), range_keys = []\<rparr>"
  let ?c = "\<lparr>onlyDegression = False, threshold = 0.1, bench = ''.'', benchmem = False,
        benchtime = ''1s'', args = []\<rparr>"
  let ?w = "\<lparr>tree = Some ''c0ffee'', calls = []\<rparr>"
  have a: "fst (run ?e ?c ?w) = Some (Errorf ''failed to run a benchmark''
             (Errorf ''failed to run 'go test' command'' (External ''exit status 1'')))"
    and b: "calls (snd (snd (run ?e ?c ?w))) =
       [PlainOpen, Head, ResolveRevision, Worktree, Reset ''decade'',
                GoTest [''test'', ''-benchtime'', ''1s'', ''-bench'', ''.'']]"
    and t: "tree (snd (snd (run ?e ?c ?w))) = Some ''decade''"
    using run_fail_fast [of ?e ?c ?w]
    by (simp_all add: parse_output_def prepareBenchArgs_def)
  have n: "fst (snd (run ?e ?c ?w)) = None"
    by (simp add: run_def hard_reset_def runBenchmark_def did_def parse_output_def)
  show ?thesis
    using a b t n by (cases "run ?e ?c ?w") (auto)
qed

end
